theory Spec2Isabelle
  imports Main "HOL-Library.Sublist"
begin

section \<open>Values handed over by the upstream client\<close>

text \<open>
  The five collections that \<open>buildMetrics\<close> receives are the results of \<open>res.json()\<close>:
  arbitrary JSON values. A property that is missing reads as \<open>undefined\<close>, so that value
  is part of the type as well. The program never calculates with a number it receives; it
  only tests it for truthiness and turns it into a string (as a label value or as a property
  key). A number is therefore represented by its canonical string form, the text
  \<open>String(n)\<close>; zero is the number whose text is \<open>0\<close>. An object is the association list
  of its own properties, each key once. A string is a list of characters; the program
  compares strings, tests them for emptiness and replaces three ASCII characters, and
  never measures or indexes them.
\<close>

datatype jsval =
    JUndefined
  | JNull
  | JBool bool
  | JNum string
  | JStr string
  | JArr "jsval list"
  | JObj "(string \<times> jsval) list"

datatype error = TypeError

fun truthy :: "jsval \<Rightarrow> bool" where
  "truthy JUndefined = False"
| "truthy JNull = False"
| "truthy (JBool b) = b"
| "truthy (JNum t) = (t \<noteq> ''0'')"
| "truthy (JStr s) = (s \<noteq> [])"
| "truthy (JArr xs) = True"
| "truthy (JObj ps) = True"

fun nullish :: "jsval \<Rightarrow> bool" where
  "nullish JUndefined = True"
| "nullish JNull = True"
| "nullish v = False"

text \<open>\<open>a || b\<close> yields \<open>a\<close> itself when it is truthy.\<close>

definition js_or :: "jsval \<Rightarrow> jsval \<Rightarrow> jsval" where
  "js_or a b = (if truthy a then a else b)"

text \<open>
  \<open>v.k\<close> for one of the property names the program reads (\<open>name\<close>, \<open>id\<close>, \<open>idList\<close>,
  \<open>idLabels\<close>, \<open>idMembers\<close>, \<open>closed\<close>, \<open>cardRole\<close>, \<open>customFieldItems\<close>, \<open>idValue\<close>,
  \<open>color\<close>, \<open>fullName\<close>, \<open>username\<close>) on a value that is neither \<open>null\<close> nor
  \<open>undefined\<close>: only an object can own such a property; strings, numbers, booleans and
  arrays inherit none of these names. Reading a property of \<open>null\<close> or \<open>undefined\<close> throws;
  that case is written out wherever the program does not guard against it.
\<close>

fun js_get :: "jsval \<Rightarrow> string \<Rightarrow> jsval" where
  "js_get (JObj ps) k = (case map_of ps k of None \<Rightarrow> JUndefined | Some v \<Rightarrow> v)"
| "js_get v k = JUndefined"

fun join_with :: "string \<Rightarrow> string list \<Rightarrow> string" where
  "join_with sep [] = []"
| "join_with sep [x] = x"
| "join_with sep (x # y # ys) = x @ sep @ join_with sep (y # ys)"

text \<open>\<open>String(v)\<close>, which is also the property key \<open>v\<close> stands for in \<open>obj[v]\<close>.\<close>

fun ToString :: "jsval \<Rightarrow> string" where
  "ToString JUndefined = ''undefined''"
| "ToString JNull = ''null''"
| "ToString (JBool b) = (if b then ''true'' else ''false'')"
| "ToString (JNum t) = t"
| "ToString (JStr s) = s"
| "ToString (JArr xs) = join_with '','' (map (\<lambda>x. if nullish x then [] else ToString x) xs)"
| "ToString (JObj ps) = ''[object Object]''"

text \<open>\<open>xs.includes(v)\<close> for an array \<open>xs\<close> of strings: \<open>v\<close> must be one of these strings.\<close>

definition js_includes :: "string list \<Rightarrow> jsval \<Rightarrow> bool" where
  "js_includes xs v = (case v of JStr s \<Rightarrow> s \<in> set xs | _ \<Rightarrow> False)"

definition isArray :: "jsval \<Rightarrow> bool" where
  "isArray v = (case v of JArr xs \<Rightarrow> True | _ \<Rightarrow> False)"

text \<open>The elements of a value already known to be an array.\<close>

definition elems :: "jsval \<Rightarrow> jsval list" where
  "elems v = (case v of JArr xs \<Rightarrow> xs | _ \<Rightarrow> [])"

section \<open>Prometheus exposition\<close>

definition backslash :: char where
  "backslash = CHR 0x5C"

definition dquote :: char where
  "dquote = CHR 0x22"

definition newline :: char where
  "newline = CHR 0x0A"

text \<open>\<open>s.replace(/c/g, r)\<close> for a single character \<open>c\<close>.\<close>

definition replace_all :: "char \<Rightarrow> string \<Rightarrow> string \<Rightarrow> string" where
  "replace_all c r s = concat (map (\<lambda>x. if x = c then r else [x]) s)"

text \<open>
  \<open>escapeLabel(value = "")\<close>: the default applies to \<open>undefined\<close> only; every other value
  goes through \<open>String\<close>.
\<close>

definition escapeLabel :: "jsval \<Rightarrow> string" where
  "escapeLabel value =
     replace_all newline [backslash, CHR ''n'']
       (replace_all dquote [backslash, dquote]
         (replace_all backslash [backslash, backslash]
           (ToString (if value = JUndefined then JStr [] else value))))"

text \<open>
  A sample \<open>{ labels: {...}, value: n }\<close>: the label set in the order in which the object
  literal lists its keys (the order of \<open>Object.entries\<close>), and the number, in the field
  \<open>val\<close>. A family is the entry \<open>{ help, samples }\<close> of the \<open>metrics\<close> object, which itself
  is the list of its entries in insertion order.
\<close>

record sample =
  labels :: "(string \<times> string) list"
  val :: nat

record family =
  "help" :: string
  samples :: "sample list"

type_synonym metrics = "(string \<times> family) list"

text \<open>The decimal text of a count, as the template literal prints it.\<close>

fun show_nat :: "nat \<Rightarrow> string" where
  "show_nat n =
     (if n < 10 then [''0123456789'' ! n]
      else show_nat (n div 10) @ [''0123456789'' ! (n mod 10)])"

declare show_nat.simps [simp del]

text \<open>
  The formatter: \<open>k="escapeLabel(v)"\<close> for every label, joined by a comma and a blank;
  one line per sample; the \<open>TYPE\<close> and \<open>HELP\<close> lines of a family and then its sample
  lines, appended to \<open>output\<close> family after family.
\<close>

definition label_text :: "string \<times> string \<Rightarrow> string" where
  "label_text kv = fst kv @ [CHR ''='', dquote] @ escapeLabel (JStr (snd kv)) @ [dquote]"

definition sample_line :: "string \<Rightarrow> sample \<Rightarrow> string" where
  "sample_line metricName s =
     metricName @ ''{'' @ join_with '', '' (map label_text (labels s)) @ ''} ''
       @ show_nat (val s) @ [newline]"

definition family_text :: "string \<times> family \<Rightarrow> string" where
  "family_text e =
     fold (\<lambda>s output. output @ sample_line (fst e) s) (samples (snd e))
       (''# TYPE '' @ fst e @ '' gauge'' @ [newline]
        @ ''# HELP '' @ fst e @ '' '' @ help (snd e) @ [newline])"

definition formatPrometheusMetrics :: "metrics \<Rightarrow> string" where
  "formatPrometheusMetrics ms = fold (\<lambda>e output. output @ family_text e) ms []"

section \<open>Domain constants\<close>

record time_entry =
  range_t :: string
  max_t :: string
  med_t :: string
  s_t :: nat

definition timeMap :: "(string \<times> time_entry) list" where
  "timeMap =
    [(''6317987e46e82a010a822ec0'',
        \<lparr>range_t = ''<5 min'', max_t = ''5 min'', med_t = ''3 minutes'', s_t = 180\<rparr>),
     (''6317987e46e82a010a822ec1'',
        \<lparr>range_t = ''5 min - 15 min'', max_t = ''5 min'', med_t = ''10 minutes'', s_t = 600\<rparr>),
     (''6317987e46e82a010a822ec2'',
        \<lparr>range_t = ''15 min - 30 min'', max_t = ''5 min'', med_t = ''23 minutes'', s_t = 1380\<rparr>),
     (''6317987e46e82a010a822ec3'',
        \<lparr>range_t = ''30 min - 1 hour'', max_t = ''5 min'', med_t = ''45 minutes'', s_t = 2700\<rparr>),
     (''6317987e46e82a010a822ec4'',
        \<lparr>range_t = ''1 hour - 3 hours'', max_t = ''5 min'', med_t = ''2 hours'', s_t = 7200\<rparr>),
     (''6317987e46e82a010a822ec5'',
        \<lparr>range_t = ''3+ hours'', max_t = ''5 min'', med_t = ''4 hours'', s_t = 14400\<rparr>)]"

definition priorityMap :: "(string \<times> string) list" where
  "priorityMap =
    [(''63237551f4e1250062d584d7'', ''Highest''),
     (''63237551f4e1250062d584d8'', ''High''),
     (''63237551f4e1250062d584d9'', ''Medium''),
     (''63237551f4e1250062d584da'', ''Low''),
     (''63237551f4e1250062d584db'', ''Lowest'')]"

text \<open>\<open>[listNameToId.Ref, listNameToId.Decomp]\<close>\<close>

definition listsToIgnore :: "string list" where
  "listsToIgnore = [''640fbcf689fe9b86e3721b60'', ''67291a8ff4e1941fe4df8c71'']"

text \<open>\<open>[listNameToId.Done]\<close>\<close>

definition doneLists :: "string list" where
  "doneLists = [''62ba39f7fc9ece2c518208a7'']"

text \<open>\<open>[labelNameToId.Divider]\<close>\<close>

definition ignoreCardsWithAtLeastOneOfTheseLabelIds :: "string list" where
  "ignoreCardsWithAtLeastOneOfTheseLabelIds = [''681a3bbe267f382f9ed138e8'']"

section \<open>Filtering and enrichment\<close>

text \<open>
  \<open>(x || []).filter(...)\<close>: a falsy \<open>x\<close> gives the empty array; any other value that is not
  an array has no \<open>filter\<close> method, and the call throws.
\<close>

definition filter_target :: "jsval \<Rightarrow> error + jsval list" where
  "filter_target x = (case js_or x (JArr []) of JArr xs \<Rightarrow> Inr xs | _ \<Rightarrow> Inl TypeError)"

text \<open>
  \<open>for (const e of x || [])\<close>: a string is iterable as well (character by character);
  numbers, booleans and plain objects are not.
\<close>

definition loop_target :: "jsval \<Rightarrow> error + jsval list" where
  "loop_target x =
     (case js_or x (JArr []) of
        JArr xs \<Rightarrow> Inr xs
      | JStr s \<Rightarrow> Inr (map (\<lambda>c. JStr [c]) s)
      | _ \<Rightarrow> Inl TypeError)"

text \<open>The list filter reads \<open>l.id\<close> of every element without a guard.\<close>

definition lists_of :: "jsval \<Rightarrow> error + jsval list" where
  "lists_of listsRaw =
     (case filter_target listsRaw of
        Inl e \<Rightarrow> Inl e
      | Inr ls \<Rightarrow>
          if list_ex nullish ls then Inl TypeError
          else Inr (filter (\<lambda>l. \<not> js_includes listsToIgnore (js_get l ''id'')) ls))"

definition card_kept :: "jsval \<Rightarrow> bool" where
  "card_kept c =
     (if \<not> truthy c \<or> \<not> truthy (js_get c ''idList'') then False
      else if js_includes listsToIgnore (js_get c ''idList'') then False
      else if isArray (js_get c ''idLabels'')
              \<and> list_ex (js_includes ignoreCardsWithAtLeastOneOfTheseLabelIds)
                    (elems (js_get c ''idLabels'')) then False
      else if js_get c ''cardRole'' = JStr ''separator'' then False
      else True)"

record custom =
  time :: "time_entry option"
  priority :: "string option"

text \<open>The card after \<open>{ ...c, customInfo: custom }\<close>: its own properties and the new one.\<close>

record card =
  raw :: jsval
  customInfo :: custom

definition hasOwn :: "('k \<times> 'v) list \<Rightarrow> 'k \<Rightarrow> bool" where
  "hasOwn m k = (map_of m k \<noteq> None)"

text \<open>
  \<open>item && item.idValue && Object.prototype.hasOwnProperty.call(table, item.idValue)\<close>
\<close>

definition recognized :: "(string \<times> 'v) list \<Rightarrow> jsval \<Rightarrow> bool" where
  "recognized table item =
     (truthy item \<and> truthy (js_get item ''idValue'')
      \<and> hasOwn table (ToString (js_get item ''idValue'')))"

text \<open>\<open>table[item.idValue]\<close>\<close>

definition entry_of :: "(string \<times> 'v) list \<Rightarrow> jsval \<Rightarrow> 'v option" where
  "entry_of table item = map_of table (ToString (js_get item ''idValue''))"

definition custom_step :: "jsval \<Rightarrow> custom \<Rightarrow> custom" where
  "custom_step item cu =
     (let cu1 = (if recognized timeMap item then cu\<lparr>time := entry_of timeMap item\<rparr> else cu)
      in if recognized priorityMap item then cu1\<lparr>priority := entry_of priorityMap item\<rparr>
         else cu1)"

definition enrich :: "jsval \<Rightarrow> card" where
  "enrich c =
     (let items = (if isArray (js_get c ''customFieldItems'')
                   then elems (js_get c ''customFieldItems'') else [])
      in \<lparr>raw = c, customInfo = fold custom_step items \<lparr>time = None, priority = None\<rparr>\<rparr>)"

definition cards_of :: "jsval \<Rightarrow> error + card list" where
  "cards_of cardsRaw =
     (case filter_target cardsRaw of
        Inl e \<Rightarrow> Inl e
      | Inr cs \<Rightarrow> Inr (map enrich (filter card_kept cs)))"

section \<open>Counting\<close>

text \<open>
  The counter objects (\<open>cardsByList\<close> and its siblings) are used as dictionaries from
  property keys to numbers, and are modelled as finite maps: \<open>cnt m k\<close> is \<open>m[k] || 0\<close>, and
  \<open>add_to m k n\<close> is the assignment \<open>m[k] = (m[k] || 0) + n\<close>. The keys in use are upstream
  object identifiers (strings of 24 hexadecimal digits) and names of the two static
  tables. A key that names a member every plain object inherits (\<open>constructor\<close>,
  \<open>toString\<close>, ...) would read as that member instead of \<open>undefined\<close>; no identifier is such
  a name, and the maps do not model it. The counts stay far below \<open>2^53\<close>, where the
  program's floating-point additions are exact, so they are natural numbers here.
\<close>

type_synonym counter = "string \<rightharpoonup> nat"

definition cnt :: "counter \<Rightarrow> string \<Rightarrow> nat" where
  "cnt m k = (case m k of None \<Rightarrow> 0 | Some n \<Rightarrow> n)"

definition add_to :: "counter \<Rightarrow> string \<Rightarrow> nat \<Rightarrow> counter" where
  "add_to m k n = m(k \<mapsto> cnt m k + n)"

definition closed :: "card \<Rightarrow> bool" where
  "closed c = truthy (js_get (raw c) ''closed'')"

definition idList :: "card \<Rightarrow> jsval" where
  "idList c = js_get (raw c) ''idList''"

definition cardsByList :: "card list \<Rightarrow> counter" where
  "cardsByList cards =
     fold (\<lambda>c m. if \<not> closed c then add_to m (ToString (idList c)) 1 else m) cards Map.empty"

text \<open>\<open>card.customInfo?.priority\<close> is a string of the table or \<open>undefined\<close>.\<close>

definition cardsByPriority :: "card list \<Rightarrow> counter" where
  "cardsByPriority cards =
     fold (\<lambda>c m. case priority (customInfo c) of
                   None \<Rightarrow> m
                 | Some p \<Rightarrow> if \<not> closed c \<and> p \<noteq> [] \<and> \<not> js_includes doneLists (idList c)
                            then add_to m p 1 else m) cards Map.empty"

definition cardsByTime :: "card list \<Rightarrow> counter" where
  "cardsByTime cards =
     fold (\<lambda>c m. case time (customInfo c) of
                   None \<Rightarrow> m
                 | Some t \<Rightarrow> if \<not> closed c then add_to m (range_t t) 1 else m) cards Map.empty"

text \<open>\<open>time.s || 0\<close> is \<open>time.s\<close> itself: a number that is falsy is 0.\<close>

definition cardTimeByList :: "card list \<Rightarrow> counter" where
  "cardTimeByList cards =
     fold (\<lambda>c m. case time (customInfo c) of
                   None \<Rightarrow> m
                 | Some t \<Rightarrow> if \<not> closed c then add_to m (ToString (idList c)) (s_t t) else m)
       cards Map.empty"

text \<open>
  The inner loop over \<open>card.idLabels\<close> (and \<open>card.idMembers\<close>): one increment for every
  entry of the array.
\<close>

definition count_entries :: "string \<Rightarrow> card list \<Rightarrow> counter" where
  "count_entries field cards =
     fold (\<lambda>c m. if \<not> closed c \<and> isArray (js_get (raw c) field)
                    \<and> length (elems (js_get (raw c) field)) \<noteq> 0
                 then fold (\<lambda>entry m'. add_to m' (ToString entry) 1) (elems (js_get (raw c) field)) m
                 else m) cards Map.empty"

definition cardsByLabel :: "card list \<Rightarrow> counter" where
  "cardsByLabel cards = count_entries ''idLabels'' cards"

definition cardsByMember :: "card list \<Rightarrow> counter" where
  "cardsByMember cards = count_entries ''idMembers'' cards"

section \<open>The metric families\<close>

definition boardName :: "jsval \<Rightarrow> string" where
  "boardName board = escapeLabel (js_or (js_get board ''name'') (JStr ''(unknown)''))"

text \<open>The property key that \<open>x.id\<close> stands for in \<open>counter[x.id]\<close>.\<close>

definition id_key :: "jsval \<Rightarrow> string" where
  "id_key x = ToString (js_get x ''id'')"

definition list_samples :: "string \<Rightarrow> counter \<Rightarrow> jsval list \<Rightarrow> sample list" where
  "list_samples bn m lsts =
     map (\<lambda>l. \<lparr>labels = [(''board'', bn), (''list'', escapeLabel (js_get l ''name''))],
                val = cnt m (id_key l)\<rparr>) lsts"

definition priority_samples :: "string \<Rightarrow> counter \<Rightarrow> sample list" where
  "priority_samples bn m =
     map (\<lambda>p. \<lparr>labels = [(''board'', bn), (''priority'', escapeLabel (JStr p))],
                val = cnt m p\<rparr>) (map snd priorityMap)"

definition time_samples :: "string \<Rightarrow> counter \<Rightarrow> sample list" where
  "time_samples bn m =
     map (\<lambda>t. \<lparr>labels = [(''board'', bn), (''time'', escapeLabel (JStr (range_t t)))],
                val = cnt m (range_t t)\<rparr>) (map snd timeMap)"

definition labelName :: "jsval \<Rightarrow> jsval" where
  "labelName label =
     js_or (js_get label ''name'') (js_or (js_get label ''color'') (JStr ''unlabeled''))"

definition label_samples :: "string \<Rightarrow> counter \<Rightarrow> jsval list \<Rightarrow> sample list" where
  "label_samples bn m ls =
     fold (\<lambda>label out.
             let count = cnt m (id_key label)
             in if count > 0
                then out @ [\<lparr>labels = [(''board'', bn), (''label'', escapeLabel (labelName label))],
                             val = count\<rparr>]
                else out) ls []"

definition memberName :: "jsval \<Rightarrow> jsval" where
  "memberName mem =
     js_or (js_get mem ''fullName'') (js_or (js_get mem ''username'') (js_get mem ''id''))"

definition member_samples :: "string \<Rightarrow> counter \<Rightarrow> jsval list \<Rightarrow> sample list" where
  "member_samples bn m ms =
     fold (\<lambda>mem out.
             let count = cnt m (id_key mem)
             in if count > 0
                then out @ [\<lparr>labels = [(''board'', bn), (''member'', escapeLabel (memberName mem))],
                             val = count\<rparr>]
                else out) ms []"

text \<open>
  The object \<open>metrics\<close> as it stands when \<open>buildMetrics\<close> reaches its last line: the
  families in the order of the object literal, each with the samples pushed onto it.
\<close>

definition metrics_object ::
  "string \<Rightarrow> jsval list \<Rightarrow> card list \<Rightarrow> jsval list \<Rightarrow> jsval list \<Rightarrow> metrics" where
  "metrics_object bn lsts cards ls ms =
     [(''trello_boards_total'',
         \<lparr>help = ''Total number of Trello boards'',
          samples = [\<lparr>labels = [], val = 1\<rparr>]\<rparr>),
      (''trello_cards_in_list_total'',
         \<lparr>help = ''Number of cards per list'',
          samples = list_samples bn (cardsByList cards) lsts\<rparr>),
      (''trello_labeled_cards_on_board'',
         \<lparr>help = ''Number of cards per board and label'',
          samples = label_samples bn (cardsByLabel cards) ls\<rparr>),
      (''trello_cards_per_board_member'',
         \<lparr>help = ''Number of cards per board and member'',
          samples = member_samples bn (cardsByMember cards) ms\<rparr>),
      (''trello_lists_per_board'',
         \<lparr>help = ''Number of lists per board'',
          samples = [\<lparr>labels = [(''board'', bn)], val = length lsts\<rparr>]\<rparr>),
      (''trello_time_in_list_total'',
         \<lparr>help = ''Total estimated time in each list (in seconds)'',
          samples = list_samples bn (cardTimeByList cards) lsts\<rparr>),
      (''trello_cards_by_priority_total'',
         \<lparr>help = ''Number of cards by priority (excluding done cards)'',
          samples = priority_samples bn (cardsByPriority cards)\<rparr>),
      (''trello_cards_by_time_total'',
         \<lparr>help = ''Number of cards by time (excluding done cards)'',
          samples = time_samples bn (cardsByTime cards)\<rparr>)]"

text \<open>
  The aggregation on the five values the upstream calls resolved to. The loops over
  \<open>labels\<close> and \<open>members\<close> read \<open>.id\<close> of every element without a guard. An exception
  anywhere abandons the whole computation, so the order of the checks does not matter.
\<close>

definition metrics_of ::
  "jsval \<Rightarrow> jsval \<Rightarrow> jsval \<Rightarrow> jsval \<Rightarrow> jsval \<Rightarrow> error + metrics" where
  "metrics_of board listsRaw labelsRaw members cardsRaw =
     (case lists_of listsRaw of Inl e \<Rightarrow> Inl e | Inr lsts \<Rightarrow>
      case cards_of cardsRaw of Inl e \<Rightarrow> Inl e | Inr cards \<Rightarrow>
      case loop_target labelsRaw of Inl e \<Rightarrow> Inl e | Inr ls \<Rightarrow>
      case loop_target members of Inl e \<Rightarrow> Inl e | Inr ms \<Rightarrow>
      if list_ex nullish ls \<or> list_ex nullish ms then Inl TypeError
      else Inr (metrics_object (boardName board) lsts cards ls ms))"

text \<open>\<open>buildMetrics\<close>: the aggregation, then the formatter.\<close>

definition buildMetrics ::
  "jsval \<Rightarrow> jsval \<Rightarrow> jsval \<Rightarrow> jsval \<Rightarrow> jsval \<Rightarrow> error + string" where
  "buildMetrics board listsRaw labelsRaw members cardsRaw =
     (case metrics_of board listsRaw labelsRaw members cardsRaw of
        Inl e \<Rightarrow> Inl e
      | Inr m \<Rightarrow> Inr (formatPrometheusMetrics m))"

text \<open>The samples of one family of a metrics object.\<close>

definition samples_of :: "metrics \<Rightarrow> string \<Rightarrow> sample list" where
  "samples_of m name = (case map_of m name of None \<Rightarrow> [] | Some f \<Rightarrow> samples f)"

section \<open>Notions used in the statements\<close>

text \<open>The seconds a card adds to its list: those of its time estimate, if it has one.\<close>

definition seconds :: "card \<Rightarrow> nat" where
  "seconds c = (case time (customInfo c) of None \<Rightarrow> 0 | Some t \<Rightarrow> s_t t)"



text \<open>
  The family list of the specification's grouping rules, in the order in which the
  specification gives it (there the names carry no \<open>trello_\<close> prefix).
\<close>

definition spec_family_list :: "string list" where
  "spec_family_list =
     [''boards_total'', ''lists_per_board'', ''cards_in_list_total'', ''cards_by_priority_total'',
      ''cards_by_time_total'', ''time_in_list_total'', ''labeled_cards_on_board'',
      ''cards_per_board_member'']"

subsection \<open>Sample inputs\<close>

definition quote_name :: string where
  "quote_name = ''He said '' @ [dquote] @ ''hi'' @ [dquote, newline]"

definition quote_board :: jsval where
  "quote_board = JObj [(''name'', JStr ''B'')]"

definition quote_lists :: jsval where
  "quote_lists = JArr [JObj [(''id'', JStr ''L''), (''name'', JStr quote_name)]]"



text \<open>
  A small board: an inbox and the done list; one label and one member; a card in the
  inbox that carries the label twice and two time and two priority values, a card in the
  done list, a card whose list is not on the board, and a divider card.
\<close>

definition demo_board :: jsval where
  "demo_board = JObj [(''name'', JStr ''X'')]"

definition demo_lists :: jsval where
  "demo_lists = JArr [JObj [(''id'', JStr ''L1''), (''name'', JStr ''Inbox'')],
                      JObj [(''id'', JStr ''62ba39f7fc9ece2c518208a7''), (''name'', JStr ''Done'')]]"

definition demo_labels :: jsval where
  "demo_labels = JArr [JObj [(''id'', JStr ''lab1''), (''name'', JStr ''bug'')]]"



definition demo_members :: jsval where
  "demo_members = JArr [JObj [(''id'', JStr ''mem1''), (''fullName'', JStr ''Ann'')]]"

definition card_inbox :: jsval where
  "card_inbox =
     JObj [(''idList'', JStr ''L1''),
           (''idLabels'', JArr [JStr ''lab1'', JStr ''lab1'']),
           (''idMembers'', JArr [JStr ''mem1'']),
           (''customFieldItems'',
              JArr [JObj [(''idValue'', JStr ''6317987e46e82a010a822ec0'')],
                    JObj [(''idValue'', JStr ''63237551f4e1250062d584d7'')],
                    JObj [(''idValue'', JStr ''6317987e46e82a010a822ec1'')],
                    JObj [(''idValue'', JStr ''63237551f4e1250062d584d8'')]])]"

definition card_done :: jsval where
  "card_done =
     JObj [(''idList'', JStr ''62ba39f7fc9ece2c518208a7''),
           (''customFieldItems'',
              JArr [JObj [(''idValue'', JStr ''6317987e46e82a010a822ec0'')],
                    JObj [(''idValue'', JStr ''63237551f4e1250062d584d7'')]])]"

definition card_orphan :: jsval where
  "card_orphan =
     JObj [(''idList'', JStr ''L9''),
           (''idLabels'', JArr [JStr ''lab1'']),
           (''idMembers'', JArr [JStr ''mem1'']),
           (''customFieldItems'',
              JArr [JObj [(''idValue'', JStr ''6317987e46e82a010a822ec0'')],
                    JObj [(''idValue'', JStr ''63237551f4e1250062d584d7'')]])]"

definition card_divider :: jsval where
  "card_divider =
     JObj [(''idList'', JStr ''L1''),
           (''idLabels'', JArr [JStr ''lab1'', JStr ''681a3bbe267f382f9ed138e8'']),
           (''idMembers'', JArr [JStr ''mem1''])]"

definition demo_cards :: jsval where
  "demo_cards = JArr [card_inbox, card_done, card_orphan, card_divider]"

section \<open>Auxiliary facts\<close>

subsection \<open>The formatter as a concatenation\<close>

lemma fold_append_concat: "fold (\<lambda>x out. out @ f x) xs acc = acc @ concat (map f xs)"
  by (induction xs arbitrary: acc) simp_all

lemma formatPrometheusMetrics_concat: "formatPrometheusMetrics ms = concat (map family_text ms)"
  by (simp add: formatPrometheusMetrics_def fold_append_concat)

lemma family_text_lines:
  "family_text (n, f) =
     ''# TYPE '' @ n @ '' gauge'' @ [newline] @ ''# HELP '' @ n @ '' '' @ help f @ [newline]
       @ concat (map (sample_line n) (samples f))"
  by (simp add: family_text_def fold_append_concat)

subsection \<open>What the counters hold\<close>

text \<open>
  Each counting loop leaves, under a key, the number (or the sum) that a filter over the
  cards describes.
\<close>

lemma cnt_empty: "cnt Map.empty k = 0"
  by (simp add: cnt_def)

lemma cnt_add_to: "cnt (add_to m k n) k' = (if k' = k then cnt m k + n else cnt m k')"
  by (simp add: cnt_def add_to_def)



lemma cardsByPriority_fold:
  "cnt (fold (\<lambda>c m. case priority (customInfo c) of
                   None \<Rightarrow> m
                 | Some p \<Rightarrow> if \<not> closed c \<and> p \<noteq> [] \<and> \<not> js_includes doneLists (idList c)
                            then add_to m p 1 else m) cards m0) k
     = cnt m0 k + length (filter (\<lambda>c. \<not> closed c \<and> k \<noteq> [] \<and> priority (customInfo c) = Some k
                                     \<and> \<not> js_includes doneLists (idList c)) cards)"
  by (induction cards arbitrary: m0) (auto simp: cnt_add_to split: option.splits)

lemma cardsByPriority_cnt:
  "cnt (cardsByPriority cards) k =
     length (filter (\<lambda>c. \<not> closed c \<and> k \<noteq> [] \<and> priority (customInfo c) = Some k
                                     \<and> \<not> js_includes doneLists (idList c)) cards)"
  by (simp add: cardsByPriority_def cardsByPriority_fold cnt_empty)

lemma cardsByTime_fold:
  "cnt (fold (\<lambda>c m. case time (customInfo c) of
                   None \<Rightarrow> m
                 | Some t \<Rightarrow> if \<not> closed c then add_to m (range_t t) 1 else m) cards m0) k
     = cnt m0 k + length (filter (\<lambda>c. \<not> closed c
                                     \<and> map_option range_t (time (customInfo c)) = Some k) cards)"
  by (induction cards arbitrary: m0) (auto simp: cnt_add_to split: option.splits)

lemma cardsByTime_cnt:
  "cnt (cardsByTime cards) k =
     length (filter (\<lambda>c. \<not> closed c \<and> map_option range_t (time (customInfo c)) = Some k) cards)"
  by (simp add: cardsByTime_def cardsByTime_fold cnt_empty)









subsection \<open>The samples of the families\<close>

lemma fold_guarded_append:
  "fold (\<lambda>x out. let count = g x in if count > 0 then out @ [h x count] else out) xs acc
     = acc @ map (\<lambda>x. h x (g x)) (filter (\<lambda>x. g x > (0::nat)) xs)"
  by (induction xs arbitrary: acc) (simp_all add: Let_def)




lemma metrics_object_names:
  "map fst (metrics_object bn lsts cards ls ms) =
       [''trello_boards_total'', ''trello_cards_in_list_total'', ''trello_labeled_cards_on_board'',
        ''trello_cards_per_board_member'', ''trello_lists_per_board'', ''trello_time_in_list_total'',
        ''trello_cards_by_priority_total'', ''trello_cards_by_time_total'']"
  by (simp add: metrics_object_def)

lemma samples_of_metrics_object:
  "samples_of (metrics_object bn lsts cards ls ms) ''trello_boards_total'' =
     [\<lparr>labels = [], val = 1\<rparr>]"
  "samples_of (metrics_object bn lsts cards ls ms) ''trello_cards_in_list_total'' =
     list_samples bn (cardsByList cards) lsts"
  "samples_of (metrics_object bn lsts cards ls ms) ''trello_labeled_cards_on_board'' =
     label_samples bn (cardsByLabel cards) ls"
  "samples_of (metrics_object bn lsts cards ls ms) ''trello_cards_per_board_member'' =
     member_samples bn (cardsByMember cards) ms"
  "samples_of (metrics_object bn lsts cards ls ms) ''trello_lists_per_board'' =
     [\<lparr>labels = [(''board'', bn)], val = length lsts\<rparr>]"
  "samples_of (metrics_object bn lsts cards ls ms) ''trello_time_in_list_total'' =
     list_samples bn (cardTimeByList cards) lsts"
  "samples_of (metrics_object bn lsts cards ls ms) ''trello_cards_by_priority_total'' =
     priority_samples bn (cardsByPriority cards)"
  "samples_of (metrics_object bn lsts cards ls ms) ''trello_cards_by_time_total'' =
     time_samples bn (cardsByTime cards)"
  by (simp_all add: samples_of_def metrics_object_def)

lemma metrics_of_cases:
  assumes "metrics_of board listsRaw labelsRaw members cardsRaw = Inr m"
  obtains lsts cards ls mems where
    "lists_of listsRaw = Inr lsts" "cards_of cardsRaw = Inr cards"
    "loop_target labelsRaw = Inr ls" "loop_target members = Inr mems"
    "\<not> list_ex nullish ls" "\<not> list_ex nullish mems"
    "m = metrics_object (boardName board) lsts cards ls mems"
  using assms
  by (auto simp: metrics_of_def split: sum.splits if_splits)

lemma metrics_of_total:
  assumes "lists_of listsRaw = Inr lsts" "cards_of cardsRaw = Inr cards"
    "loop_target labelsRaw = Inr ls" "loop_target members = Inr mems"
    "\<not> list_ex nullish ls" "\<not> list_ex nullish mems"
  shows "metrics_of board listsRaw labelsRaw members cardsRaw =
           Inr (metrics_object (boardName board) lsts cards ls mems)"
  using assms by (simp add: metrics_of_def)


subsection \<open>Collections that are arrays or absent\<close>

lemma filter_target_simps:
  "filter_target (JArr xs) = Inr xs"
  "filter_target JNull = Inr []"
  "filter_target JUndefined = Inr []"
  by (simp_all add: filter_target_def js_or_def)

lemma loop_target_simps:
  "loop_target (JArr xs) = Inr xs"
  "loop_target JNull = Inr []"
  "loop_target JUndefined = Inr []"
  by (simp_all add: loop_target_def js_or_def)

lemma lists_of_empty: "lists_of JNull = Inr []" "lists_of (JArr []) = Inr []"
  by (simp_all add: lists_of_def filter_target_simps)

lemma cards_of_empty: "cards_of JNull = Inr []" "cards_of (JArr []) = Inr []"
  by (simp_all add: cards_of_def filter_target_simps)

lemma lists_of_array:
  "\<not> list_ex nullish ls \<Longrightarrow>
     lists_of (JArr ls) = Inr (filter (\<lambda>l. \<not> js_includes listsToIgnore (js_get l ''id'')) ls)"
  by (simp add: lists_of_def filter_target_simps)

lemma cards_of_array: "cards_of (JArr cs) = Inr (map enrich (filter card_kept cs))"
  by (simp add: cards_of_def filter_target_simps)

subsection \<open>Sums over distinct keys\<close>



subsection \<open>Labels of the enumerated families\<close>

lemma escapeLabel_plain:
  "backslash \<notin> set s \<Longrightarrow> dquote \<notin> set s \<Longrightarrow> newline \<notin> set s
     \<Longrightarrow> escapeLabel (JStr s) = s"
proof -
  have same: "replace_all c r t = t" if "c \<notin> set t" for c r t
    using that by (induction t) (auto simp: replace_all_def)
  assume "backslash \<notin> set s" "dquote \<notin> set s" "newline \<notin> set s"
  then show ?thesis
    by (simp add: escapeLabel_def same)
qed

lemma priority_samples_labels:
  "map (\<lambda>s. map_of (labels s) ''priority'') (priority_samples bn m)
     = map (\<lambda>e. Some (snd e)) priorityMap"
  by (simp add: priority_samples_def priorityMap_def escapeLabel_plain backslash_def dquote_def
      newline_def)

lemma time_samples_labels:
  "map (\<lambda>s. map_of (labels s) ''time'') (time_samples bn m)
     = map (\<lambda>e. Some (range_t (snd e))) timeMap"
  by (simp add: time_samples_def timeMap_def escapeLabel_plain backslash_def dquote_def
      newline_def)

lemma positive_label_samples: "list_all (\<lambda>s. 0 < val s) (label_samples bn m ls)"
  unfolding label_samples_def fold_guarded_append
  by (simp add: list_all_iff)

lemma positive_member_samples: "list_all (\<lambda>s. 0 < val s) (member_samples bn m ls)"
  unfolding member_samples_def fold_guarded_append
  by (simp add: list_all_iff)

subsection \<open>Resolution of the custom fields\<close>

lemma custom_step_time:
  "time (custom_step item cu) =
     (if recognized timeMap item then entry_of timeMap item else time cu)"
  by (simp add: custom_step_def Let_def)

lemma custom_step_priority:
  "priority (custom_step item cu) =
     (if recognized priorityMap item then entry_of priorityMap item else priority cu)"
  by (simp add: custom_step_def Let_def)

lemma fold_custom_step_time:
  "time (fold custom_step items cu) =
     (if filter (recognized timeMap) items = [] then time cu
      else entry_of timeMap (last (filter (recognized timeMap) items)))"
proof (induction items arbitrary: cu)
  case Nil
  then show ?case by simp
next
  case (Cons item items)
  show ?case
    by (simp add: Cons.IH custom_step_time)
qed

lemma fold_custom_step_priority:
  "priority (fold custom_step items cu) =
     (if filter (recognized priorityMap) items = [] then priority cu
      else entry_of priorityMap (last (filter (recognized priorityMap) items)))"
proof (induction items arbitrary: cu)
  case Nil
  then show ?case by simp
next
  case (Cons item items)
  show ?case
    by (simp add: Cons.IH custom_step_priority)
qed

subsection \<open>One card more or less\<close>

text \<open>
  How the cards that survive the filter, and with them every counter, change when one
  card is put into the cards array.
\<close>

lemma card_kept_excluded:
  assumes "js_get c ''idLabels'' = JArr ids" and "JStr i \<in> set ids"
    and "i \<in> set ignoreCardsWithAtLeastOneOfTheseLabelIds"
  shows "\<not> card_kept c"
proof -
  have "js_includes ignoreCardsWithAtLeastOneOfTheseLabelIds (JStr i)"
    using assms(3) by (simp add: js_includes_def)
  with assms(2) have "list_ex (js_includes ignoreCardsWithAtLeastOneOfTheseLabelIds) ids"
    by (auto simp: list_ex_iff)
  with assms(1) show ?thesis
    by (simp add: card_kept_def isArray_def elems_def)
qed

lemma cards_of_dropped:
  "\<not> card_kept c \<Longrightarrow> cards_of (JArr (xs @ c # ys)) = cards_of (JArr (xs @ ys))"
  by (simp add: cards_of_array)

lemma cards_of_with:
  "card_kept c \<Longrightarrow>
     cards_of (JArr (xs @ c # ys))
       = Inr (map enrich (filter card_kept xs) @ enrich c # map enrich (filter card_kept ys))"
  by (simp add: cards_of_array)

lemma cards_of_without:
  "cards_of (JArr (xs @ ys))
     = Inr (map enrich (filter card_kept xs) @ map enrich (filter card_kept ys))"
  by (simp add: cards_of_array)



lemma cardsByPriority_insert:
  "cnt (cardsByPriority (A @ c # B)) k =
     cnt (cardsByPriority (A @ B)) k
       + (if \<not> closed c \<and> k \<noteq> [] \<and> priority (customInfo c) = Some k
             \<and> \<not> js_includes doneLists (idList c) then 1 else 0)"
  by (simp add: cardsByPriority_cnt)

lemma cardsByTime_insert:
  "cnt (cardsByTime (A @ c # B)) k =
     cnt (cardsByTime (A @ B)) k
       + (if \<not> closed c \<and> map_option range_t (time (customInfo c)) = Some k then 1 else 0)"
  by (simp add: cardsByTime_cnt)


lemma priority_samples_vals:
  "map val (priority_samples bn m) = map (\<lambda>e. cnt m (snd e)) priorityMap"
  by (simp add: priority_samples_def comp_def)

lemma time_samples_vals:
  "map val (time_samples bn m) = map (\<lambda>e. cnt m (range_t (snd e))) timeMap"
  by (simp add: time_samples_def comp_def)

lemma priority_samples_cong:
  "(\<And>k. cnt m k = cnt m' k) \<Longrightarrow> priority_samples bn m = priority_samples bn m'"
  by (simp add: priority_samples_def)



lemma map2_over_map: "map2 f xs (map g xs) = map (\<lambda>x. f x (g x)) xs"
  by (induction xs) simp_all

text \<open>
  The aggregation on a cards array that holds a kept card \<open>c\<close>, next to the aggregation
  on the array without it: the same lists, labels and members, and the card lists differ
  by the enriched \<open>c\<close>.
\<close>

lemma metrics_of_with_without:
  assumes "metrics_of board listsRaw labelsRaw members (JArr (xs @ c # ys)) = Inr m"
    and "metrics_of board listsRaw labelsRaw members (JArr (xs @ ys)) = Inr m'"
    and "card_kept c"
  obtains lsts A B ls mems where
    "lists_of listsRaw = Inr lsts" "loop_target labelsRaw = Inr ls"
    "loop_target members = Inr mems"
    "m = metrics_object (boardName board) lsts (A @ enrich c # B) ls mems"
    "m' = metrics_object (boardName board) lsts (A @ B) ls mems"
proof -
  from assms(1) obtain lsts cards ls mems where 1:
    "lists_of listsRaw = Inr lsts" "cards_of (JArr (xs @ c # ys)) = Inr cards"
    "loop_target labelsRaw = Inr ls" "loop_target members = Inr mems"
    "m = metrics_object (boardName board) lsts cards ls mems"
    by (rule metrics_of_cases)
  from assms(2) obtain lsts' cards' ls' mems' where 2:
    "lists_of listsRaw = Inr lsts'" "cards_of (JArr (xs @ ys)) = Inr cards'"
    "loop_target labelsRaw = Inr ls'" "loop_target members = Inr mems'"
    "m' = metrics_object (boardName board) lsts' cards' ls' mems'"
    by (rule metrics_of_cases)
  let ?A = "map enrich (filter card_kept xs)" and ?B = "map enrich (filter card_kept ys)"
  from 1(2) assms(3) have "cards = ?A @ enrich c # ?B"
    by (simp add: cards_of_with)
  moreover from 2(2) have "cards' = ?A @ ?B"
    by (simp add: cards_of_without)
  moreover from 1 2 have "lsts' = lsts" "ls' = ls" "mems' = mems"
    by simp_all
  ultimately show thesis
    using that [of lsts ls mems ?A ?B] 1 2 by simp
qed




subsection \<open>The cards of the small board\<close>

lemma demo_kept:
  "card_kept card_inbox" "card_kept card_done" "card_kept card_orphan" "\<not> card_kept card_divider"
  by (simp_all add: card_kept_def card_inbox_def card_done_def card_orphan_def card_divider_def
      js_includes_def listsToIgnore_def ignoreCardsWithAtLeastOneOfTheseLabelIds_def
      isArray_def elems_def)

lemma demo_open:
  "\<not> closed (enrich card_inbox)" "\<not> closed (enrich card_done)" "\<not> closed (enrich card_orphan)"
  by (simp_all add: closed_def enrich_def Let_def card_inbox_def card_done_def card_orphan_def)

lemma demo_idList:
  "idList (enrich card_inbox) = JStr ''L1''"
  "idList (enrich card_done) = JStr ''62ba39f7fc9ece2c518208a7''"
  "idList (enrich card_orphan) = JStr ''L9''"
  by (simp_all add: idList_def enrich_def Let_def card_inbox_def card_done_def card_orphan_def)

lemma demo_custom:
  "customInfo (enrich card_done) =
     \<lparr>time = Some \<lparr>range_t = ''<5 min'', max_t = ''5 min'', med_t = ''3 minutes'', s_t = 180\<rparr>,
      priority = Some ''Highest''\<rparr>"
  "customInfo (enrich card_orphan) =
     \<lparr>time = Some \<lparr>range_t = ''<5 min'', max_t = ''5 min'', med_t = ''3 minutes'', s_t = 180\<rparr>,
      priority = Some ''Highest''\<rparr>"
  by (simp_all add: enrich_def Let_def card_done_def card_orphan_def isArray_def elems_def
      custom_step_def recognized_def hasOwn_def entry_of_def timeMap_def priorityMap_def)

lemma demo_cards_of:
  "cards_of demo_cards = Inr [enrich card_inbox, enrich card_done, enrich card_orphan]"
  by (simp add: demo_cards_def cards_of_array demo_kept)

lemma demo_loop_targets:
  "loop_target demo_labels = Inr [JObj [(''id'', JStr ''lab1''), (''name'', JStr ''bug'')]]"
  "loop_target demo_members = Inr [JObj [(''id'', JStr ''mem1''), (''fullName'', JStr ''Ann'')]]"
  by (simp_all add: demo_labels_def demo_members_def loop_target_simps)

lemma demo_lists_of:
  "lists_of demo_lists =
     Inr [JObj [(''id'', JStr ''L1''), (''name'', JStr ''Inbox'')],
          JObj [(''id'', JStr ''62ba39f7fc9ece2c518208a7''), (''name'', JStr ''Done'')]]"
  by (simp add: demo_lists_def lists_of_array js_includes_def listsToIgnore_def)

lemma demo_metrics_of:
  "\<exists>m. metrics_of demo_board demo_lists demo_labels demo_members demo_cards = Inr m"
  by (simp add: metrics_of_total [OF demo_lists_of demo_cards_of demo_loop_targets])

lemma demo_metrics_of_without:
  "\<exists>m. metrics_of demo_board demo_lists demo_labels demo_members (JArr cs) = Inr m"
  by (simp add: metrics_of_total [OF demo_lists_of cards_of_array demo_loop_targets])

subsection \<open>Inputs of the expected shape\<close>




lemma isArray_JArr: "isArray (JArr xs)"
  by (simp add: isArray_def)






subsection \<open>Array-valued fields of a card\<close>


















subsection \<open>Sample lines in the output\<close>

lemma sublist_concat_member: "x \<in> set xs \<Longrightarrow> sublist x (concat xs)"
proof -
  assume "x \<in> set xs"
  then obtain as bs where "xs = as @ x # bs"
    by (auto dest: split_list)
  then have "concat xs = concat as @ x @ concat bs"
    by simp
  then show ?thesis
    unfolding sublist_def by blast
qed

lemma sample_line_in_output:
  assumes "metrics_of board listsRaw labelsRaw members cardsRaw = Inr m"
    and "s \<in> set (samples_of m n)"
  shows "\<exists>out. buildMetrics board listsRaw labelsRaw members cardsRaw = Inr out
           \<and> sublist (sample_line n s) out"
proof -
  from assms(2) obtain f where f: "map_of m n = Some f" "s \<in> set (samples f)"
    by (cases "map_of m n") (simp_all add: samples_of_def)
  then have "(n, f) \<in> set m"
    by (auto dest: map_of_SomeD)
  then have 1: "sublist (family_text (n, f)) (formatPrometheusMetrics m)"
    unfolding formatPrometheusMetrics_concat
    by (intro sublist_concat_member) auto
  from f(2) have "sublist (sample_line n s) (concat (map (sample_line n) (samples f)))"
    by (intro sublist_concat_member) auto
  then have 2: "sublist (sample_line n s) (family_text (n, f))"
    unfolding family_text_lines sublist_def
    by (metis append.assoc)
  from 2 1 have "sublist (sample_line n s) (formatPrometheusMetrics m)"
    by (rule sublist_order.order.trans)
  with assms(1) show ?thesis
    by (simp add: buildMetrics_def)
qed

section \<open>The claims\<close>

text \<open>
  C1 (label values are escaped exactly once). The aggregator escapes every display name
  when it builds a label set, and the formatter escapes every label value again when it
  prints the sample. For the list name \<open>He said "hi"\<close> followed by a newline, one
  application of \<open>escapeLabel\<close> gives the text the claim expects; the sample line of
  \<open>trello_cards_in_list_total\<close>, which is part of the output of \<open>buildMetrics\<close>, carries
  that text escaped once more, and the expected text does not occur in the line.
\<close>

theorem label_value_escaped_twice:
  "escapeLabel (JStr quote_name)
     = ''He said '' @ [backslash, dquote] @ ''hi'' @ [backslash, dquote, backslash, CHR ''n'']
   \<and> map_sum id (\<lambda>m. map (sample_line ''trello_cards_in_list_total'')
                       (samples_of m ''trello_cards_in_list_total''))
       (metrics_of quote_board quote_lists (JArr []) (JArr []) (JArr []))
     = Inr [''trello_cards_in_list_total{board='' @ [dquote] @ ''B'' @ [dquote]
             @ '', list='' @ [dquote]
             @ ''He said '' @ [backslash, backslash, backslash, dquote] @ ''hi''
             @ [backslash, backslash, backslash, dquote, backslash, backslash, CHR ''n'']
             @ [dquote] @ ''} 0'' @ [newline]]
   \<and> map_sum id
         (sublist (''trello_cards_in_list_total{board='' @ [dquote] @ ''B'' @ [dquote]
             @ '', list='' @ [dquote]
             @ ''He said '' @ [backslash, backslash, backslash, dquote] @ ''hi''
             @ [backslash, backslash, backslash, dquote, backslash, backslash, CHR ''n'']
             @ [dquote] @ ''} 0'' @ [newline]))
       (buildMetrics quote_board quote_lists (JArr []) (JArr []) (JArr [])) = Inr True
   \<and> \<not> sublist (''He said '' @ [backslash, dquote] @ ''hi''
                   @ [backslash, dquote, backslash, CHR ''n''])
         (''trello_cards_in_list_total{board='' @ [dquote] @ ''B'' @ [dquote]
             @ '', list='' @ [dquote]
             @ ''He said '' @ [backslash, backslash, backslash, dquote] @ ''hi''
             @ [backslash, backslash, backslash, dquote, backslash, backslash, CHR ''n'']
             @ [dquote] @ ''} 0'' @ [newline])"
proof -
  let ?line = "''trello_cards_in_list_total{board='' @ [dquote] @ ''B'' @ [dquote]
             @ '', list='' @ [dquote]
             @ ''He said '' @ [backslash, backslash, backslash, dquote] @ ''hi''
             @ [backslash, backslash, backslash, dquote, backslash, backslash, CHR ''n'']
             @ [dquote] @ ''} 0'' @ [newline]"
  let ?m = "metrics_object (boardName quote_board)
              [JObj [(''id'', JStr ''L''), (''name'', JStr quote_name)]] [] [] []"
  have once: "escapeLabel (JStr quote_name)
     = ''He said '' @ [backslash, dquote] @ ''hi'' @ [backslash, dquote, backslash, CHR ''n'']"
    by (simp add: escapeLabel_def quote_name_def replace_all_def backslash_def dquote_def
        newline_def)
  have l: "lists_of quote_lists
             = Inr [JObj [(''id'', JStr ''L''), (''name'', JStr quote_name)]]"
    by (simp add: quote_lists_def lists_of_def filter_target_simps js_includes_def
        listsToIgnore_def)
  have m: "metrics_of quote_board quote_lists (JArr []) (JArr []) (JArr []) = Inr ?m"
    by (rule metrics_of_total [OF l cards_of_empty(2) loop_target_simps(1) loop_target_simps(1)])
       simp_all
  have lines: "map (sample_line ''trello_cards_in_list_total'')
                 (samples_of ?m ''trello_cards_in_list_total'') = [?line]"
    by (simp add: samples_of_metrics_object list_samples_def cardsByList_def cnt_empty
        sample_line_def label_text_def boardName_def quote_board_def js_or_def
        escapeLabel_def quote_name_def replace_all_def backslash_def dquote_def newline_def
        show_nat.simps)
  then obtain s where s: "s \<in> set (samples_of ?m ''trello_cards_in_list_total'')"
    "sample_line ''trello_cards_in_list_total'' s = ?line"
    by (cases "samples_of ?m ''trello_cards_in_list_total''") auto
  from sample_line_in_output [OF m s(1)] obtain out where
    "buildMetrics quote_board quote_lists (JArr []) (JArr []) (JArr []) = Inr out"
    "sublist (sample_line ''trello_cards_in_list_total'' s) out"
    by blast
  then have out: "map_sum id (sublist ?line)
       (buildMetrics quote_board quote_lists (JArr []) (JArr []) (JArr [])) = Inr True"
    by (simp only: s(2) map_sum.simps id_apply)
  have absent: "\<not> sublist (''He said '' @ [backslash, dquote] @ ''hi''
                   @ [backslash, dquote, backslash, CHR ''n'']) ?line"
    by code_simp
  have both: "map_sum id (\<lambda>m. map (sample_line ''trello_cards_in_list_total'')
                       (samples_of m ''trello_cards_in_list_total''))
       (metrics_of quote_board quote_lists (JArr []) (JArr []) (JArr [])) = Inr [?line]"
    by (simp only: m map_sum.simps id_apply lines)
  from once both out absent show ?thesis
    by (intro conjI)
qed

text \<open>
  The families do not come out in the order of the specification's family list: the
  second family is \<open>trello_cards_in_list_total\<close>, not \<open>lists_per_board\<close>.
\<close>

theorem family_order_counterexample:
  "map_sum id (map fst) (metrics_of JNull JNull JNull JNull JNull)
     \<noteq> Inr (map (\<lambda>n. ''trello_'' @ n) spec_family_list)"
  by (simp add: metrics_of_total [OF lists_of_empty(1) cards_of_empty(1)
        loop_target_simps(2) loop_target_simps(2)] metrics_object_names spec_family_list_def)

text \<open>
  C2 (order of the output), as amended. Whenever the aggregation succeeds, the families
  stand in the order of the object literal in \<open>buildMetrics\<close>, and the formatted output
  is the concatenation, in that order, of one block per family: the \<open>TYPE\<close> line, the
  \<open>HELP\<close> line, and the sample lines in the order in which the aggregator pushed the
  samples.
\<close>

theorem family_order:
  assumes "metrics_of board listsRaw labelsRaw members cardsRaw = Inr m"
  shows "map fst m =
           [''trello_boards_total'', ''trello_cards_in_list_total'',
            ''trello_labeled_cards_on_board'', ''trello_cards_per_board_member'',
            ''trello_lists_per_board'', ''trello_time_in_list_total'',
            ''trello_cards_by_priority_total'', ''trello_cards_by_time_total'']
       \<and> buildMetrics board listsRaw labelsRaw members cardsRaw =
           Inr (concat (map (\<lambda>(n, f).
                   ''# TYPE '' @ n @ '' gauge'' @ [newline]
                   @ ''# HELP '' @ n @ '' '' @ help f @ [newline]
                   @ concat (map (sample_line n) (samples f))) m))"
proof -
  from assms have "map fst m =
           [''trello_boards_total'', ''trello_cards_in_list_total'',
            ''trello_labeled_cards_on_board'', ''trello_cards_per_board_member'',
            ''trello_lists_per_board'', ''trello_time_in_list_total'',
            ''trello_cards_by_priority_total'', ''trello_cards_by_time_total'']"
    by (auto elim!: metrics_of_cases simp: metrics_object_names)
  moreover have "family_text = (\<lambda>(n, f).
                   ''# TYPE '' @ n @ '' gauge'' @ [newline]
                   @ ''# HELP '' @ n @ '' '' @ help f @ [newline]
                   @ concat (map (sample_line n) (samples f)))"
    by (auto simp: fun_eq_iff family_text_lines)
  ultimately show ?thesis
    using assms by (simp add: buildMetrics_def formatPrometheusMetrics_concat)
qed

theorem family_order_witness:
  "\<exists>m. metrics_of JNull JNull JNull JNull JNull = Inr m
     \<and> map fst m =
           [''trello_boards_total'', ''trello_cards_in_list_total'',
            ''trello_labeled_cards_on_board'', ''trello_cards_per_board_member'',
            ''trello_lists_per_board'', ''trello_time_in_list_total'',
            ''trello_cards_by_priority_total'', ''trello_cards_by_time_total'']
     \<and> buildMetrics JNull JNull JNull JNull JNull =
           Inr (concat (map (\<lambda>(n, f).
                   ''# TYPE '' @ n @ '' gauge'' @ [newline]
                   @ ''# HELP '' @ n @ '' '' @ help f @ [newline]
                   @ concat (map (sample_line n) (samples f))) m))"
  using family_order [OF metrics_of_total [OF lists_of_empty(1) cards_of_empty(1)
        loop_target_simps(2) loop_target_simps(2), of JNull]]
    metrics_of_total [OF lists_of_empty(1) cards_of_empty(1)
        loop_target_simps(2) loop_target_simps(2), of JNull]
  by simp





text \<open>
  C4 (enumeration of the priority and time families, suppression in the label and member
  families). Whenever the aggregation succeeds, \<open>trello_cards_by_priority_total\<close> has
  exactly one sample per entry of the priority table, labelled with the entries' names
  in table order, and \<open>trello_cards_by_time_total\<close> one sample per entry of the time
  table, labelled with the entries' ranges in table order, whatever the counts are
  (a count of 0 included); every sample of \<open>trello_labeled_cards_on_board\<close> and of
  \<open>trello_cards_per_board_member\<close> has a positive value.
\<close>

theorem enumeration_and_suppression:
  assumes "metrics_of board listsRaw labelsRaw members cardsRaw = Inr m"
  shows "map (\<lambda>s. map_of (labels s) ''priority'') (samples_of m ''trello_cards_by_priority_total'')
           = map (\<lambda>e. Some (snd e)) priorityMap
       \<and> map (\<lambda>s. map_of (labels s) ''time'') (samples_of m ''trello_cards_by_time_total'')
           = map (\<lambda>e. Some (range_t (snd e))) timeMap
       \<and> list_all (\<lambda>s. 0 < val s) (samples_of m ''trello_labeled_cards_on_board'')
       \<and> list_all (\<lambda>s. 0 < val s) (samples_of m ''trello_cards_per_board_member'')"
  using assms
  by (auto elim!: metrics_of_cases
      simp: samples_of_metrics_object priority_samples_labels time_samples_labels
        positive_label_samples positive_member_samples)

text \<open>
  On the small board the label \<open>lab1\<close> and the member \<open>mem1\<close> are in use, and three of
  the five priority levels have no card.
\<close>

theorem enumeration_and_suppression_witness:
  "\<exists>m. metrics_of demo_board demo_lists demo_labels demo_members demo_cards = Inr m
     \<and> map (\<lambda>s. map_of (labels s) ''priority'') (samples_of m ''trello_cards_by_priority_total'')
           = map (\<lambda>e. Some (snd e)) priorityMap
     \<and> map (\<lambda>s. map_of (labels s) ''time'') (samples_of m ''trello_cards_by_time_total'')
           = map (\<lambda>e. Some (range_t (snd e))) timeMap
     \<and> list_all (\<lambda>s. 0 < val s) (samples_of m ''trello_labeled_cards_on_board'')
     \<and> list_all (\<lambda>s. 0 < val s) (samples_of m ''trello_cards_per_board_member'')"
proof -
  obtain m where m: "metrics_of demo_board demo_lists demo_labels demo_members demo_cards = Inr m"
    using demo_metrics_of by blast
  from enumeration_and_suppression [OF m] m show ?thesis
    by blast
qed

text \<open>
  C7 (the last recognized custom-field item wins). For a card whose \<open>customFieldItems\<close>
  is an array, the resolved time estimate is the table entry of the last item of the
  array that is recognized by the time table, if there is such an item (so also when
  there are two or more), and none otherwise; the same holds for the priority and the
  priority table.
\<close>

theorem last_recognized_item_wins:
  assumes "js_get c ''customFieldItems'' = JArr items"
  shows "time (customInfo (enrich c)) =
           (if filter (recognized timeMap) items = [] then None
            else entry_of timeMap (last (filter (recognized timeMap) items)))
       \<and> priority (customInfo (enrich c)) =
           (if filter (recognized priorityMap) items = [] then None
            else entry_of priorityMap (last (filter (recognized priorityMap) items)))"
  using assms
  by (simp add: enrich_def isArray_def elems_def fold_custom_step_time fold_custom_step_priority)


text \<open>
  The card in the inbox has the items \<open><5 min\<close>, \<open>Highest\<close>, \<open>5 min - 15 min\<close>, \<open>High\<close>, in
  this order: it resolves to \<open>5 min - 15 min\<close> and \<open>High\<close>.
\<close>

theorem last_recognized_item_wins_witness:
  "js_get card_inbox ''customFieldItems'' =
       JArr [JObj [(''idValue'', JStr ''6317987e46e82a010a822ec0'')],
             JObj [(''idValue'', JStr ''63237551f4e1250062d584d7'')],
             JObj [(''idValue'', JStr ''6317987e46e82a010a822ec1'')],
             JObj [(''idValue'', JStr ''63237551f4e1250062d584d8'')]]
   \<and> time (customInfo (enrich card_inbox)) =
       Some \<lparr>range_t = ''5 min - 15 min'', max_t = ''5 min'', med_t = ''10 minutes'', s_t = 600\<rparr>
   \<and> priority (customInfo (enrich card_inbox)) = Some ''High''"
proof -
  have i: "js_get card_inbox ''customFieldItems'' =
       JArr [JObj [(''idValue'', JStr ''6317987e46e82a010a822ec0'')],
             JObj [(''idValue'', JStr ''63237551f4e1250062d584d7'')],
             JObj [(''idValue'', JStr ''6317987e46e82a010a822ec1'')],
             JObj [(''idValue'', JStr ''63237551f4e1250062d584d8'')]]"
    by (simp add: card_inbox_def)
  show ?thesis
    using last_recognized_item_wins [OF i] i
    by (simp add: recognized_def hasOwn_def entry_of_def timeMap_def priorityMap_def)
qed

text \<open>
  C6 (a card with an exclusionary label is absent from every family). A card whose
  \<open>idLabels\<close> array holds an exclusionary label identifier can be taken out of the cards
  array without any change to the metrics or to the formatted output, whatever its other
  properties are and wherever it stands in the array.
\<close>

theorem excluded_card_contributes_nothing:
  assumes "js_get c ''idLabels'' = JArr ids" and "JStr i \<in> set ids"
    and "i \<in> set ignoreCardsWithAtLeastOneOfTheseLabelIds"
  shows "metrics_of board listsRaw labelsRaw members (JArr (xs @ c # ys))
           = metrics_of board listsRaw labelsRaw members (JArr (xs @ ys))
       \<and> buildMetrics board listsRaw labelsRaw members (JArr (xs @ c # ys))
           = buildMetrics board listsRaw labelsRaw members (JArr (xs @ ys))"
proof -
  have same: "cards_of (JArr (xs @ c # ys)) = cards_of (JArr (xs @ ys))"
    using assms by (intro cards_of_dropped card_kept_excluded)
  show ?thesis
    unfolding buildMetrics_def metrics_of_def same by simp
qed

theorem excluded_card_contributes_nothing_witness:
  "js_get card_divider ''idLabels'' = JArr [JStr ''lab1'', JStr ''681a3bbe267f382f9ed138e8'']
   \<and> JStr ''681a3bbe267f382f9ed138e8'' \<in> set [JStr ''lab1'', JStr ''681a3bbe267f382f9ed138e8'']
   \<and> ''681a3bbe267f382f9ed138e8'' \<in> set ignoreCardsWithAtLeastOneOfTheseLabelIds
   \<and> metrics_of demo_board demo_lists demo_labels demo_members
         (JArr ([card_inbox, card_done, card_orphan] @ card_divider # []))
       = metrics_of demo_board demo_lists demo_labels demo_members
           (JArr ([card_inbox, card_done, card_orphan] @ []))
   \<and> buildMetrics demo_board demo_lists demo_labels demo_members
         (JArr ([card_inbox, card_done, card_orphan] @ card_divider # []))
       = buildMetrics demo_board demo_lists demo_labels demo_members
           (JArr ([card_inbox, card_done, card_orphan] @ []))"
proof -
  have 1: "js_get card_divider ''idLabels'' = JArr [JStr ''lab1'', JStr ''681a3bbe267f382f9ed138e8'']"
    by (simp add: card_divider_def)
  have 2: "JStr ''681a3bbe267f382f9ed138e8'' \<in> set [JStr ''lab1'', JStr ''681a3bbe267f382f9ed138e8'']"
    by simp
  have 3: "''681a3bbe267f382f9ed138e8'' \<in> set ignoreCardsWithAtLeastOneOfTheseLabelIds"
    by (simp add: ignoreCardsWithAtLeastOneOfTheseLabelIds_def)
  from excluded_card_contributes_nothing [OF 1 2 3] 1 2 3 show ?thesis
    by blast
qed

text \<open>
  C5 (the priority family skips terminal lists, the time family does not). Whenever the
  aggregation succeeds, the value of the sample of each priority level is the number of
  surviving cards that are not archived, resolve to that level and whose list is not a
  done list, and the value of the sample of each time range is the number of surviving
  cards that are not archived and resolve to that range, whatever their list is.
  Consequently a surviving card that is not archived, sits in a done list and resolves
  to a priority and to a time estimate is counted by the time family only: against the
  cards array without that card, the samples of \<open>trello_cards_by_priority_total\<close> are
  unchanged, and the value of the card's range in \<open>trello_cards_by_time_total\<close> is greater
  by one.
\<close>

theorem priority_skips_done_lists:
  assumes "metrics_of board listsRaw labelsRaw members cardsRaw = Inr m"
    and "cards_of cardsRaw = Inr cards"
  shows "map val (samples_of m ''trello_cards_by_priority_total'')
           = map (\<lambda>e. length (filter (\<lambda>c. \<not> closed c \<and> priority (customInfo c) = Some (snd e)
                                          \<and> \<not> js_includes doneLists (idList c)) cards))
               priorityMap
       \<and> map val (samples_of m ''trello_cards_by_time_total'')
           = map (\<lambda>e. length (filter (\<lambda>c. \<not> closed c
                                          \<and> map_option range_t (time (customInfo c))
                                              = Some (range_t (snd e))) cards))
               timeMap
       \<and> (\<forall>xs c ys m' t p.
             cardsRaw = JArr (xs @ c # ys)
             \<and> metrics_of board listsRaw labelsRaw members (JArr (xs @ ys)) = Inr m'
             \<and> card_kept c \<and> \<not> closed (enrich c) \<and> js_includes doneLists (idList (enrich c))
             \<and> time (customInfo (enrich c)) = Some t \<and> priority (customInfo (enrich c)) = Some p
             \<longrightarrow> samples_of m ''trello_cards_by_priority_total''
                   = samples_of m' ''trello_cards_by_priority_total''
                 \<and> map val (samples_of m ''trello_cards_by_time_total'')
                   = map2 (\<lambda>e v. if range_t (snd e) = range_t t then v + 1 else v) timeMap
                       (map val (samples_of m' ''trello_cards_by_time_total'')))"
proof (intro conjI allI impI)
  from assms have p: "samples_of m ''trello_cards_by_priority_total''
      = priority_samples (boardName board) (cardsByPriority cards)"
    and t: "samples_of m ''trello_cards_by_time_total''
      = time_samples (boardName board) (cardsByTime cards)"
    by (auto elim!: metrics_of_cases simp: samples_of_metrics_object)
  show "map val (samples_of m ''trello_cards_by_priority_total'')
           = map (\<lambda>e. length (filter (\<lambda>c. \<not> closed c \<and> priority (customInfo c) = Some (snd e)
                                          \<and> \<not> js_includes doneLists (idList c)) cards))
               priorityMap"
    unfolding p priority_samples_vals cardsByPriority_cnt
    by (simp add: priorityMap_def)
  show "map val (samples_of m ''trello_cards_by_time_total'')
           = map (\<lambda>e. length (filter (\<lambda>c. \<not> closed c
                                          \<and> map_option range_t (time (customInfo c))
                                              = Some (range_t (snd e))) cards))
               timeMap"
    unfolding t time_samples_vals cardsByTime_cnt ..
next
  fix xs c ys m' t p
  assume h: "cardsRaw = JArr (xs @ c # ys)
             \<and> metrics_of board listsRaw labelsRaw members (JArr (xs @ ys)) = Inr m'
             \<and> card_kept c \<and> \<not> closed (enrich c) \<and> js_includes doneLists (idList (enrich c))
             \<and> time (customInfo (enrich c)) = Some t \<and> priority (customInfo (enrich c)) = Some p"
  with assms(1) obtain lsts A B ls mems where
    m: "m = metrics_object (boardName board) lsts (A @ enrich c # B) ls mems"
    and m': "m' = metrics_object (boardName board) lsts (A @ B) ls mems"
    by (auto elim: metrics_of_with_without)
  show "samples_of m ''trello_cards_by_priority_total''
          = samples_of m' ''trello_cards_by_priority_total''"
    unfolding m m' samples_of_metrics_object
    by (rule priority_samples_cong) (simp add: cardsByPriority_insert h)
  show "map val (samples_of m ''trello_cards_by_time_total'')
          = map2 (\<lambda>e v. if range_t (snd e) = range_t t then v + 1 else v) timeMap
              (map val (samples_of m' ''trello_cards_by_time_total''))"
    unfolding m m' samples_of_metrics_object time_samples_vals map2_over_map
    by (simp add: cardsByTime_insert h)
qed


text \<open>
  On the small board the card in the done list resolves to \<open><5 min\<close> and \<open>Highest\<close>.
\<close>

theorem priority_skips_done_lists_witness:
  "\<exists>m m' cards.
     metrics_of demo_board demo_lists demo_labels demo_members demo_cards = Inr m
     \<and> cards_of demo_cards = Inr cards
     \<and> demo_cards = JArr ([card_inbox] @ card_done # [card_orphan, card_divider])
     \<and> metrics_of demo_board demo_lists demo_labels demo_members
           (JArr ([card_inbox] @ [card_orphan, card_divider])) = Inr m'
     \<and> card_kept card_done \<and> \<not> closed (enrich card_done)
     \<and> js_includes doneLists (idList (enrich card_done))
     \<and> time (customInfo (enrich card_done))
         = Some \<lparr>range_t = ''<5 min'', max_t = ''5 min'', med_t = ''3 minutes'', s_t = 180\<rparr>
     \<and> priority (customInfo (enrich card_done)) = Some ''Highest''
     \<and> map val (samples_of m ''trello_cards_by_priority_total'')
           = map (\<lambda>e. length (filter (\<lambda>c. \<not> closed c \<and> priority (customInfo c) = Some (snd e)
                                          \<and> \<not> js_includes doneLists (idList c)) cards))
               priorityMap
     \<and> map val (samples_of m ''trello_cards_by_time_total'')
           = map (\<lambda>e. length (filter (\<lambda>c. \<not> closed c
                                          \<and> map_option range_t (time (customInfo c))
                                              = Some (range_t (snd e))) cards))
               timeMap
     \<and> samples_of m ''trello_cards_by_priority_total''
           = samples_of m' ''trello_cards_by_priority_total''
     \<and> map val (samples_of m ''trello_cards_by_time_total'')
           = map2 (\<lambda>e v. if range_t (snd e) = ''<5 min'' then v + 1 else v) timeMap
               (map val (samples_of m' ''trello_cards_by_time_total''))"
proof -
  obtain m where m: "metrics_of demo_board demo_lists demo_labels demo_members demo_cards = Inr m"
    using demo_metrics_of by blast
  obtain m' where m': "metrics_of demo_board demo_lists demo_labels demo_members
           (JArr ([card_inbox] @ [card_orphan, card_divider])) = Inr m'"
    using demo_metrics_of_without by blast
  have s: "demo_cards = JArr ([card_inbox] @ card_done # [card_orphan, card_divider])"
    by (simp add: demo_cards_def)
  have d: "js_includes doneLists (idList (enrich card_done))"
    by (simp add: demo_idList js_includes_def doneLists_def)
  have t: "time (customInfo (enrich card_done))
         = Some \<lparr>range_t = ''<5 min'', max_t = ''5 min'', med_t = ''3 minutes'', s_t = 180\<rparr>"
    and p: "priority (customInfo (enrich card_done)) = Some ''Highest''"
    by (simp_all add: demo_custom)
  note all = priority_skips_done_lists [OF m demo_cards_of]
  from all have a: "map val (samples_of m ''trello_cards_by_priority_total'')
           = map (\<lambda>e. length (filter (\<lambda>c. \<not> closed c \<and> priority (customInfo c) = Some (snd e)
                                          \<and> \<not> js_includes doneLists (idList c))
                     [enrich card_inbox, enrich card_done, enrich card_orphan]))
               priorityMap"
    and b: "map val (samples_of m ''trello_cards_by_time_total'')
           = map (\<lambda>e. length (filter (\<lambda>c. \<not> closed c
                                          \<and> map_option range_t (time (customInfo c))
                                              = Some (range_t (snd e)))
                     [enrich card_inbox, enrich card_done, enrich card_orphan]))
               timeMap"
    by blast+
  from all s m' demo_kept(2) demo_open(2) d t p
  have c: "samples_of m ''trello_cards_by_priority_total''
           = samples_of m' ''trello_cards_by_priority_total''
     \<and> map val (samples_of m ''trello_cards_by_time_total'')
           = map2 (\<lambda>e v. if range_t (snd e)
                 = range_t \<lparr>range_t = ''<5 min'', max_t = ''5 min'', med_t = ''3 minutes'', s_t = 180\<rparr>
               then v + 1 else v) timeMap
               (map val (samples_of m' ''trello_cards_by_time_total''))"
    by blast
  from c have c': "samples_of m ''trello_cards_by_priority_total''
           = samples_of m' ''trello_cards_by_priority_total''"
    "map val (samples_of m ''trello_cards_by_time_total'')
           = map2 (\<lambda>e v. if range_t (snd e) = ''<5 min'' then v + 1 else v) timeMap
               (map val (samples_of m' ''trello_cards_by_time_total''))"
    by simp_all
  show ?thesis
    using m m' demo_cards_of s demo_kept(2) demo_open(2) d t p a b c'
    by blast
qed












end
